theory Spec2Isabelle
  imports Complex_Main "HOL-Library.Word"
begin

section \<open>Numbers\<close>

text \<open>
  The controller reads the fields of \<^verbatim>\<open>sixaxis.SA\<close> (package
  \<^verbatim>\<open>github.com/adammck/sixaxis\<close>, outside this repository). Its analog fields
  (button pressures, stick axes) are taken as signed 32-bit integers, read with
  \<open>sint\<close>; \<open>+\<close>, \<open>-\<close>, \<open>*\<close> and unary minus wrap around as Go's do.
  Go's \<^verbatim>\<open>int\<close> is taken as 64 bits.

  \<^verbatim>\<open>float64\<close> is modelled by \<open>real\<close>: rounding, infinities and NaN are left out,
  every float operation is the exact real one. The conversion \<^verbatim>\<open>float64(x)\<close> of
  a 32-bit integer is exact in Go as well.
\<close>

type_synonym int32 = "32 word"
type_synonym goint = "64 word"
type_synonym float64 = real

definition float64_of :: "int32 \<Rightarrow> float64" where
  "float64_of x = real_of_int (sint x)"

section \<open>Constants of the controller package\<close>

definition moveSpeed :: float64 where "moveSpeed = 100"
definition rotSpeed :: float64 where "rotSpeed = 15"
definition horizontalLookScale :: float64 where "horizontalLookScale = 250"
definition verticalLookScale :: float64 where "verticalLookScale = 250"

definition focalHorizontalOffset :: float64 where "focalHorizontalOffset = 0"
definition focalVerticalOffset :: float64 where "focalVerticalOffset = 43 + 34.5"
definition focalDistance :: float64 where "focalDistance = 500"

definition clearanceStep :: float64 where "clearanceStep = 10"
definition minButtonPressure :: int32 where "minButtonPressure = 10"

definition bankScale :: float64 where "bankScale = 15"
definition pitchScale :: float64 where "pitchScale = 15"

definition xOffsetScale :: float64 where "xOffsetScale = 40"
definition zOffsetScale :: float64 where "zOffsetScale = 40"

section \<open>Data\<close>

text \<open>
  Modelled from the spec: \<^verbatim>\<open>math3d.Vector3\<close> and \<^verbatim>\<open>math3d.Pose\<close> are declared in
  the package \<^verbatim>\<open>math3d\<close>, which is not among the sources. The fields are the ones the
  struct literals of \<^verbatim>\<open>Tick\<close> name, and the spec's (position, heading, pitch, bank).
  A field left out of a Go struct literal is zero; the model writes the zero.
\<close>

record Vector3 =
  X :: float64
  Y :: float64
  Z :: float64

record Pose =
  Position :: Vector3
  Heading :: float64
  Pitch :: float64
  Bank :: float64

text \<open>
  Modelled from the spec: \<^verbatim>\<open>hexapod.State\<close> is declared in the root package, which is
  not among the sources. The fields are the ones \<^verbatim>\<open>Tick\<close> touches, with the types of
  the spec's data model (\<open>Speed\<close> and \<open>GaitIndex\<close> integers). \<^verbatim>\<open>LookAt\<close> is a
  \<^verbatim>\<open>*math3d.Vector3\<close>, assigned the address of a fresh vector: \<open>None\<close> is the nil
  pointer, \<open>Some v\<close> a pointer to a vector \<open>v\<close>.
\<close>

record State =
  Target :: Pose
  Pose :: Pose
  Offset :: Vector3
  LookAt :: "Vector3 option"
  Speed :: goint
  GaitIndex :: goint
  Shutdown :: bool

text \<open>
  \<^verbatim>\<open>sixaxis.AnalogStick\<close> (fields \<^verbatim>\<open>X\<close>, \<^verbatim>\<open>Y\<close>; named \<open>StickX\<close>, \<open>StickY\<close> here,
  \<open>X\<close> and \<open>Y\<close> being the vector's) and the part of \<^verbatim>\<open>sixaxis.SA\<close> that
  \<^verbatim>\<open>Tick\<close> reads: the frame of one cycle. \<open>OrientationX\<close> and \<open>OrientationY\<close>
  are the values returned by \<^verbatim>\<open>sa.Orientation.X()\<close> and \<^verbatim>\<open>sa.Orientation.Y()\<close>.
  A tick reads one frame: the sampler that writes \<^verbatim>\<open>*c.sa\<close> in the background is not
  modelled.
\<close>

record AnalogStick =
  StickX :: int32
  StickY :: int32

record SA =
  Select :: bool
  Start :: bool
  PS :: bool
  Up :: int32
  Right :: int32
  Down :: int32
  Left :: int32
  L2 :: int32
  R2 :: int32
  R1 :: int32
  Triangle :: int32
  LeftStick :: AnalogStick
  RightStick :: AnalogStick
  OrientationX :: float64
  OrientationY :: float64

section \<open>Latch\<close>

text \<open>
  Modelled from the spec: the type \<^verbatim>\<open>Latch\<close> and its method \<^verbatim>\<open>Run\<close> are declared
  in a file of the controller package that is not among the sources;
  \<^verbatim>\<open>controller.go\<close> only declares fields of that type and calls \<^verbatim>\<open>Run\<close>.
  The spec: the only state is the boolean \<open>active\<close>; \<^verbatim>\<open>run(pressed)\<close> returns
  true on the first true after a false or after construction, false while the input
  stays true, and a false input resets the state so that the next rising edge fires.
\<close>

record Latch =
  active :: bool

definition Latch_Run :: "bool \<Rightarrow> Latch \<Rightarrow> bool \<times> Latch" where
  "Latch_Run pressed l =
     (if pressed then
        (if active l then (False, l) else (True, l\<lparr>active := True\<rparr>))
      else (False, l\<lparr>active := False\<rparr>))"

text \<open>A latch as Go constructs it: the zero value.\<close>

definition Latch_zero :: Latch where
  "Latch_zero = \<lparr>active = False\<rparr>"

text \<open>Feeding a sequence of inputs to one latch, collecting what each call returns.\<close>

fun Latch_Runs :: "bool list \<Rightarrow> Latch \<Rightarrow> bool list" where
  "Latch_Runs [] l = []"
| "Latch_Runs (v # vs) l = (case Latch_Run v l of (r, l') \<Rightarrow> r # Latch_Runs vs l')"

section \<open>Pose addition\<close>

text \<open>
  Modelled from the spec: \<^verbatim>\<open>math3d.Pose.Add\<close> is not among the sources. The spec
  has the delta added to the current pose, and for the focal point it has the pitch
  and bank of the pose cancelled first, "so the reference frame is level regardless
  of body tilt", before the translation; the comments of \<^verbatim>\<open>Tick\<close> say the same (the
  target is set "relative to the current pose", the focal point is "forwards relative
  to the ground rather than the chassis"). So \<^verbatim>\<open>Add\<close> sums the three angles and
  translates in the frame of the pose: the position of the delta is turned by the
  heading, pitch and bank of the pose and then added to its position.

  The spec does not fix the conventions of the frame. The model takes the axes as
  \<^verbatim>\<open>Tick\<close> uses them (\<open>X\<close> lateral, \<open>Y\<close> up, \<open>Z\<close> forward), the angles in degrees
  (the comments on \<^verbatim>\<open>bankScale\<close> and \<^verbatim>\<open>pitchScale\<close>), the bank as a turn about
  \<open>Z\<close>, the pitch about \<open>X\<close>, the heading about \<open>Y\<close>, applied in this order. The
  sense of each turn is a choice of the model.
\<close>

definition radians :: "float64 \<Rightarrow> float64" where
  "radians a = a * pi / 180"

definition Rotate_Bank :: "float64 \<Rightarrow> Vector3 \<Rightarrow> Vector3" where
  "Rotate_Bank a v =
     \<lparr>X = X v * cos (radians a) - Y v * sin (radians a),
      Y = X v * sin (radians a) + Y v * cos (radians a),
      Z = Z v\<rparr>"

definition Rotate_Pitch :: "float64 \<Rightarrow> Vector3 \<Rightarrow> Vector3" where
  "Rotate_Pitch a v =
     \<lparr>X = X v,
      Y = Y v * cos (radians a) - Z v * sin (radians a),
      Z = Y v * sin (radians a) + Z v * cos (radians a)\<rparr>"

definition Rotate_Heading :: "float64 \<Rightarrow> Vector3 \<Rightarrow> Vector3" where
  "Rotate_Heading a v =
     \<lparr>X = X v * cos (radians a) + Z v * sin (radians a),
      Y = Y v,
      Z = Z v * cos (radians a) - X v * sin (radians a)\<rparr>"

text \<open>A vector given in the frame of the pose \<open>p\<close>, as a displacement in the world.\<close>

definition Pose_Frame :: "Pose \<Rightarrow> Vector3 \<Rightarrow> Vector3" where
  "Pose_Frame p v =
     Rotate_Heading (Heading p) (Rotate_Pitch (Pitch p) (Rotate_Bank (Bank p) v))"

definition Pose_Add :: "Pose \<Rightarrow> Pose \<Rightarrow> Pose" where
  "Pose_Add p d =
     \<lparr>Position = \<lparr>X = X (Position p) + X (Pose_Frame p (Position d)),
                   Y = Y (Position p) + Y (Pose_Frame p (Position d)),
                   Z = Z (Position p) + Z (Pose_Frame p (Position d))\<rparr>,
      Heading = Heading p + Heading d,
      Pitch = Pitch p + Pitch d,
      Bank = Bank p + Bank d\<rparr>"

section \<open>Controller\<close>

text \<open>The \<^verbatim>\<open>Controller\<close> struct without its pointer \<^verbatim>\<open>sa\<close>: the frame that a tick
  reads through that pointer is an argument of \<open>Tick\<close>.\<close>

record Controller =
  clearance :: float64
  upLatch :: Latch
  downLatch :: Latch
  leftLatch :: Latch
  rightLatch :: Latch
  psLatch :: Latch
  selectTriangle :: Latch
  setTargetOrientation :: bool

text \<open>\<^verbatim>\<open>New\<close>: clearance 40, every other field the zero value.\<close>

definition New :: Controller where
  "New = \<lparr>clearance = 40,
          upLatch = Latch_zero, downLatch = Latch_zero, leftLatch = Latch_zero,
          rightLatch = Latch_zero, psLatch = Latch_zero, selectTriangle = Latch_zero,
          setTargetOrientation = False\<rparr>"

text \<open>
  \<^verbatim>\<open>Controller.Tick\<close>. The Go method mutates \<^verbatim>\<open>*c\<close> and \<^verbatim>\<open>*state\<close> and returns a
  nil error on every path; the model returns the controller and the state after the
  call. The argument \<^verbatim>\<open>now\<close> is not used by the method. The \<open>let\<close>s follow the
  statements of the source in their order.
\<close>

definition Tick :: "SA \<Rightarrow> Controller \<Rightarrow> State \<Rightarrow> Controller \<times> State" where
  "Tick sa c state =
     (if Shutdown state then (c, state)
      else
        let state = (if Start sa \<and> \<not> Shutdown state
                     then state\<lparr>Shutdown := True\<rparr> else state);
            state = state\<lparr>Target := Pose_Add (Pose state)
                      \<lparr>Position =
                         \<lparr>X = (float64_of (StickX (LeftStick sa)) / 127) * moveSpeed,
                          Y = 0,
                          Z = (float64_of (- StickY (LeftStick sa)) / 127) * moveSpeed\<rparr>,
                       Heading = (float64_of (R2 sa - L2 sa) / 127) * rotSpeed,
                       Pitch = 0,
                       Bank = 0\<rparr>\<rparr>;
            state = state\<lparr>Target := (Target state)
                      \<lparr>Position := (Position (Target state))\<lparr>Y := clearance c\<rparr>\<rparr>\<rparr>;
            state = (if setTargetOrientation c
                     then state\<lparr>Target := (Target state)
                            \<lparr>Pitch := - OrientationY sa * pitchScale,
                             Bank := - OrientationX sa * bankScale\<rparr>\<rparr>
                     else state\<lparr>Target := (Target state)\<lparr>Pitch := 0, Bank := 0\<rparr>\<rparr>);
            state = (if minButtonPressure <s R1 sa
                     then state\<lparr>Offset :=
                            \<lparr>X = float64_of (StickX (RightStick sa)) / 127 * xOffsetScale,
                             Y = 0,
                             Z = float64_of (StickY (RightStick sa) * (- 1)) / 127
                                   * zOffsetScale\<rparr>\<rparr>
                     else
                       let fp = Position
                             (Pose_Add
                               (Pose_Add (Pose state)
                                  \<lparr>Position = \<lparr>X = 0, Y = 0, Z = 0\<rparr>, Heading = 0,
                                   Pitch = - Pitch (Pose state),
                                   Bank = - Bank (Pose state)\<rparr>)
                               \<lparr>Position =
                                  \<lparr>X = (float64_of (StickX (RightStick sa)) / 127
                                          * horizontalLookScale) + focalHorizontalOffset,
                                   Y = (float64_of (StickY (RightStick sa) * (- 1)) / 127
                                          * verticalLookScale) + focalVerticalOffset,
                                   Z = focalDistance\<rparr>,
                                Heading = 0, Pitch = 0, Bank = 0\<rparr>)
                       in state\<lparr>LookAt := Some fp\<rparr>);
            (fire, l) = Latch_Run (PS sa) (psLatch c);
            c = c\<lparr>psLatch := l\<rparr>;
            c = (if fire then c\<lparr>setTargetOrientation := \<not> setTargetOrientation c\<rparr>
                 else c);
            (fire, l) = Latch_Run (minButtonPressure <s Up sa) (upLatch c);
            c = c\<lparr>upLatch := l\<rparr>;
            c = (if fire then c\<lparr>clearance := clearance c + clearanceStep\<rparr> else c);
            (fire, l) = Latch_Run (minButtonPressure <s Down sa) (downLatch c);
            c = c\<lparr>downLatch := l\<rparr>;
            c = (if fire then c\<lparr>clearance := clearance c - clearanceStep\<rparr> else c);
            (fire, l) = Latch_Run (minButtonPressure <s Right sa) (rightLatch c);
            c = c\<lparr>rightLatch := l\<rparr>;
            state = (if fire then state\<lparr>Speed := Speed state + 1\<rparr> else state);
            (fire, l) = Latch_Run (minButtonPressure <s Left sa) (leftLatch c);
            c = c\<lparr>leftLatch := l\<rparr>;
            state = (if fire then state\<lparr>Speed := Speed state - 1\<rparr> else state);
            (fire, l) = Latch_Run (Select sa \<and> minButtonPressure <s Triangle sa)
                          (selectTriangle c);
            c = c\<lparr>selectTriangle := l\<rparr>;
            state = (if fire then state\<lparr>GaitIndex := GaitIndex state + 1\<rparr> else state)
        in (c, state))"

text \<open>The scheduler calls \<^verbatim>\<open>Tick\<close> once per cycle; \<open>Ticks\<close> runs one call for
  each frame of a list, in order, on the same controller and state.\<close>

fun Ticks :: "SA list \<Rightarrow> Controller \<Rightarrow> State \<Rightarrow> Controller \<times> State" where
  "Ticks [] c state = (c, state)"
| "Ticks (sa # sas) c state = (case Tick sa c state of (c', state') \<Rightarrow> Ticks sas c' state')"

section \<open>Concrete inputs\<close>

text \<open>The zero value of \<^verbatim>\<open>hexapod.State\<close>, and a frame of a controller at rest:
  nothing pressed, sticks centred.\<close>

definition State_zero :: State where
  "State_zero =
     \<lparr>Target = \<lparr>Position = \<lparr>X = 0, Y = 0, Z = 0\<rparr>, Heading = 0, Pitch = 0, Bank = 0\<rparr>,
      Pose = \<lparr>Position = \<lparr>X = 0, Y = 0, Z = 0\<rparr>, Heading = 0, Pitch = 0, Bank = 0\<rparr>,
      Offset = \<lparr>X = 0, Y = 0, Z = 0\<rparr>,
      LookAt = None, Speed = 0, GaitIndex = 0, Shutdown = False\<rparr>"

definition SA_idle :: SA where
  "SA_idle =
     \<lparr>Select = False, Start = False, PS = False,
      Up = 0, Right = 0, Down = 0, Left = 0, L2 = 0, R2 = 0, R1 = 0, Triangle = 0,
      LeftStick = \<lparr>StickX = 0, StickY = 0\<rparr>, RightStick = \<lparr>StickX = 0, StickY = 0\<rparr>,
      OrientationX = 0, OrientationY = 0\<rparr>"


section \<open>Properties of the latch\<close>

lemma Latch_Runs_length: "length (Latch_Runs vs l) = length vs"
  by (induction vs arbitrary: l) (simp_all add: Latch_Run_def)

text \<open>What the \<open>i\<close>-th call returns, from any state of the latch: the input is true and
  the one before it (the state of the latch, for the first call) is not.\<close>

lemma Latch_Runs_nth:
  "i < length vs \<Longrightarrow>
   Latch_Runs vs l ! i = (vs ! i \<and> \<not> (if i = 0 then active l else vs ! (i - 1)))"
proof (induction vs arbitrary: l i)
  case Nil
  then show ?case by simp
next
  case (Cons v vs)
  show ?case
  proof (cases i)
    case 0
    then show ?thesis by (simp add: Latch_Run_def)
  next
    case (Suc j)
    with Cons.prems have j: "j < length vs" by simp
    show ?thesis
      using Cons.IH [OF j] Suc
      by (cases j) (simp_all add: Latch_Run_def)
  qed
qed

text \<open>
  C5. Fed to a freshly constructed latch, a sequence of inputs yields one output per
  input; the output at position \<open>i\<close> is true exactly when input \<open>i\<close> is true and
  is the first of its maximal run of trues (it is the very first input, or the input
  before it is false); in particular \<open>[F,T,T,F,T]\<close> yields \<open>[F,T,F,F,T]\<close>.
\<close>

theorem Latch_first_of_each_run:
  "length (Latch_Runs vs Latch_zero) = length vs \<and>
   (\<forall>i < length vs.
      Latch_Runs vs Latch_zero ! i = (vs ! i \<and> (i = 0 \<or> \<not> vs ! (i - 1)))) \<and>
   Latch_Runs [False, True, True, False, True] Latch_zero = [False, True, False, False, True]"
  by (auto simp add: Latch_Runs_length Latch_Runs_nth Latch_zero_def Latch_Run_def)

theorem Latch_first_of_each_run_witness:
  "(4::nat) < length [False, True, True, False, True] \<and>
   Latch_Runs [False, True, True, False, True] Latch_zero ! 4 = True \<and>
   Latch_Runs [False, True, True, False, True] Latch_zero ! 2 = False"
  using Latch_first_of_each_run [of "[False, True, True, False, True]"]
  by simp

section \<open>One tick, unfolded\<close>

text \<open>A conditional update of one field is an update of that field by a conditional
  value. With these rules the statements of \<open>Tick\<close> compose without a case split.\<close>

lemma if_Shutdown_update:
  "(if b then s\<lparr>Shutdown := v\<rparr> else s) = s\<lparr>Shutdown := (if b then v else Shutdown s)\<rparr>"
  by simp

lemma if_Speed_update:
  "(if b then s\<lparr>Speed := v\<rparr> else s) = s\<lparr>Speed := (if b then v else Speed s)\<rparr>"
  by simp

lemma if_GaitIndex_update:
  "(if b then s\<lparr>GaitIndex := v\<rparr> else s) = s\<lparr>GaitIndex := (if b then v else GaitIndex s)\<rparr>"
  by simp

lemma if_Target_update:
  "(if b then s\<lparr>Target := v\<rparr> else s\<lparr>Target := w\<rparr>) = s\<lparr>Target := (if b then v else w)\<rparr>"
  by simp

lemma if_Offset_LookAt_update:
  "(if b then s\<lparr>Offset := v\<rparr> else s\<lparr>LookAt := w\<rparr>) =
   s\<lparr>Offset := (if b then v else Offset s), LookAt := (if b then LookAt s else w)\<rparr>"
  by simp

lemma if_clearance_update:
  "(if b then k\<lparr>clearance := v\<rparr> else k) = k\<lparr>clearance := (if b then v else clearance k)\<rparr>"
  by simp

lemma if_setTargetOrientation_update:
  "(if b then k\<lparr>setTargetOrientation := v\<rparr> else k) =
   k\<lparr>setTargetOrientation := (if b then v else setTargetOrientation k)\<rparr>"
  by simp

lemmas if_updates = if_Shutdown_update if_Speed_update if_GaitIndex_update if_Target_update
  if_Offset_LookAt_update if_clearance_update if_setTargetOrientation_update


text \<open>A tick on a state that is shutting down changes nothing; any other tick writes
  the fields below, every right-hand side in terms of the controller, the state and the
  frame at entry.\<close>

lemma Tick_no_op: "Shutdown st \<Longrightarrow> Tick sa c st = (c, st)"
  by (simp add: Tick_def)

lemma Tick_unfold:
  "\<not> Shutdown st \<Longrightarrow>
   Tick sa c st =
    (c\<lparr>psLatch := snd (Latch_Run (PS sa) (psLatch c)),
       setTargetOrientation :=
         (if fst (Latch_Run (PS sa) (psLatch c)) then \<not> setTargetOrientation c
          else setTargetOrientation c),
       upLatch := snd (Latch_Run (minButtonPressure <s Up sa) (upLatch c)),
       downLatch := snd (Latch_Run (minButtonPressure <s Down sa) (downLatch c)),
       clearance :=
         (if fst (Latch_Run (minButtonPressure <s Down sa) (downLatch c))
          then (if fst (Latch_Run (minButtonPressure <s Up sa) (upLatch c))
                then clearance c + clearanceStep else clearance c) - clearanceStep
          else (if fst (Latch_Run (minButtonPressure <s Up sa) (upLatch c))
                then clearance c + clearanceStep else clearance c)),
       rightLatch := snd (Latch_Run (minButtonPressure <s Right sa) (rightLatch c)),
       leftLatch := snd (Latch_Run (minButtonPressure <s Left sa) (leftLatch c)),
       selectTriangle :=
         snd (Latch_Run (Select sa \<and> minButtonPressure <s Triangle sa) (selectTriangle c))\<rparr>,
     st\<lparr>Shutdown := Start sa,
        Target :=
          (let t = Pose_Add (State.Pose st)
                \<lparr>Position =
                   \<lparr>X = (float64_of (StickX (LeftStick sa)) / 127) * moveSpeed,
                    Y = 0,
                    Z = (float64_of (- StickY (LeftStick sa)) / 127) * moveSpeed\<rparr>,
                 Heading = (float64_of (R2 sa - L2 sa) / 127) * rotSpeed,
                 Pitch = 0,
                 Bank = 0\<rparr>
           in t\<lparr>Position := (Position t)\<lparr>Y := clearance c\<rparr>,
                Pitch := (if setTargetOrientation c then - OrientationY sa * pitchScale else 0),
                Bank := (if setTargetOrientation c then - OrientationX sa * bankScale else 0)\<rparr>),
        Offset :=
          (if minButtonPressure <s R1 sa
           then \<lparr>X = float64_of (StickX (RightStick sa)) / 127 * xOffsetScale,
                 Y = 0,
                 Z = float64_of (StickY (RightStick sa) * (- 1)) / 127 * zOffsetScale\<rparr>
           else Offset st),
        LookAt :=
          (if minButtonPressure <s R1 sa then LookAt st
           else Some (Position
             (Pose_Add
               (Pose_Add (State.Pose st)
                  \<lparr>Position = \<lparr>X = 0, Y = 0, Z = 0\<rparr>, Heading = 0,
                   Pitch = - Pitch (State.Pose st),
                   Bank = - Bank (State.Pose st)\<rparr>)
               \<lparr>Position =
                  \<lparr>X = (float64_of (StickX (RightStick sa)) / 127
                          * horizontalLookScale) + focalHorizontalOffset,
                   Y = (float64_of (StickY (RightStick sa) * (- 1)) / 127
                          * verticalLookScale) + focalVerticalOffset,
                   Z = focalDistance\<rparr>,
                Heading = 0, Pitch = 0, Bank = 0\<rparr>))),
        Speed :=
          (if fst (Latch_Run (minButtonPressure <s Left sa) (leftLatch c))
           then (if fst (Latch_Run (minButtonPressure <s Right sa) (rightLatch c))
                 then Speed st + 1 else Speed st) - 1
           else (if fst (Latch_Run (minButtonPressure <s Right sa) (rightLatch c))
                 then Speed st + 1 else Speed st)),
        GaitIndex :=
          (if fst (Latch_Run (Select sa \<and> minButtonPressure <s Triangle sa) (selectTriangle c))
           then GaitIndex st + 1 else GaitIndex st)\<rparr>)"
  apply (simp add: Tick_def Let_def split_def if_updates split del: if_split cong: if_cong)
  apply (cases "Start sa"; cases "setTargetOrientation c"; simp)
  done


lemma pressed_iff: "minButtonPressure <s x \<longleftrightarrow> 10 < sint x"
  by (simp add: minButtonPressure_def word_sless_alt)

lemma Ticks_no_op: "Shutdown st \<Longrightarrow> Ticks sas c st = (c, st)"
  by (induction sas) (simp_all add: Tick_no_op)

lemmas concrete_defs = State_zero_def SA_idle_def New_def Latch_zero_def Latch_Run_def
  minButtonPressure_def clearanceStep_def word_sless_alt


text \<open>Pressures between 0 and 255 subtract without wrapping.\<close>

lemma sint_sub_pressures:
  fixes a b :: int32
  assumes "0 \<le> sint a" "sint a \<le> 255" "0 \<le> sint b" "sint b \<le> 255"
  shows "sint (a - b) = sint a - sint b"
proof -
  have "sint (a - b) = signed_take_bit (LENGTH(32) - Suc 0) (sint a - sint b)"
    by (simp add: sint_word_ariths)
  also have "\<dots> = sint a - sint b"
    using assms by (intro signed_take_bit_int_eq_self) simp_all
  finally show ?thesis .
qed

lemma scaled_negative: "(k::int) < 0 \<Longrightarrow> (real_of_int k / 127) * 15 < 0"
  by (simp add: mult_less_0_iff divide_less_0_iff)






lemmas Pose_Add_defs = Pose_Add_def Pose_Frame_def Rotate_Heading_def Rotate_Pitch_def
  Rotate_Bank_def radians_def

section \<open>The claims about \<open>Tick\<close>\<close>

text \<open>
  C1 (as amended). After a tick that is not a no-op, \<open>Target.Position.Y\<close> is the value
  the clearance accumulator had at entry to the tick. The accumulator is changed
  afterwards in the same tick: plus one step if the Up latch fires, minus one step if
  the Down latch fires. If neither fires, \<open>Target.Position.Y\<close> is the accumulator after
  the tick as well.
\<close>

theorem Tick_TargetY_is_entry_clearance:
  "\<not> Shutdown st \<Longrightarrow>
   Y (Position (Target (snd (Tick sa c st)))) = clearance c \<and>
   clearance (fst (Tick sa c st)) =
     clearance c
       + (if fst (Latch_Run (10 < sint (Up sa)) (upLatch c)) then 10 else 0)
       - (if fst (Latch_Run (10 < sint (Down sa)) (downLatch c)) then 10 else 0) \<and>
   (\<not> fst (Latch_Run (10 < sint (Up sa)) (upLatch c)) \<and>
    \<not> fst (Latch_Run (10 < sint (Down sa)) (downLatch c)) \<longrightarrow>
      Y (Position (Target (snd (Tick sa c st)))) = clearance (fst (Tick sa c st)))"
  by (simp add: Tick_unfold pressed_iff clearanceStep_def Let_def)

theorem Tick_TargetY_is_entry_clearance_witness:
  "\<not> Shutdown State_zero \<and>
   Y (Position (Target (snd (Tick (SA_idle\<lparr>Down := 200\<rparr>) New State_zero)))) = 40 \<and>
   clearance (fst (Tick (SA_idle\<lparr>Down := 200\<rparr>) New State_zero)) = 30 \<and>
   \<not> fst (Latch_Run (10 < sint (Up SA_idle)) (upLatch New)) \<and>
   \<not> fst (Latch_Run (10 < sint (Down SA_idle)) (downLatch New)) \<and>
   Y (Position (Target (snd (Tick SA_idle New State_zero)))) = 40 \<and>
   clearance (fst (Tick SA_idle New State_zero)) = 40"
  using Tick_TargetY_is_entry_clearance [of State_zero "SA_idle\<lparr>Down := 200\<rparr>" New]
    Tick_TargetY_is_entry_clearance [of State_zero SA_idle New]
  by (simp add: concrete_defs)

text \<open>C1 as stated fails on the first tick of a new controller with Up pressed: the
  target height is 40, the accumulator 50.\<close>

theorem Tick_TargetY_counterexample:
  "\<not> Shutdown State_zero \<and>
   Y (Position (Target (snd (Tick (SA_idle\<lparr>Up := 255\<rparr>) New State_zero)))) = 40 \<and>
   clearance (fst (Tick (SA_idle\<lparr>Up := 255\<rparr>) New State_zero)) = 50 \<and>
   Y (Position (Target (snd (Tick (SA_idle\<lparr>Up := 255\<rparr>) New State_zero)))) \<noteq>
     clearance (fst (Tick (SA_idle\<lparr>Up := 255\<rparr>) New State_zero))"
  by (simp add: Tick_unfold concrete_defs Let_def)

text \<open>
  C2 (as amended). On a state that is not shutting down, a tick with Start pressed sets
  \<open>Shutdown\<close> and then completes the tick: the controller and the other fields of the
  state are written exactly as by the same tick without Start (\<open>Pose\<close> is never
  written). Only from the next tick on is the state left alone.
\<close>

theorem Tick_Start_completes_tick:
  "\<not> Shutdown st \<Longrightarrow> Start sa \<Longrightarrow>
   Shutdown (snd (Tick sa c st)) \<and>
   State.Pose (snd (Tick sa c st)) = State.Pose st \<and>
   Tick sa c st =
     (case Tick (sa\<lparr>Start := False\<rparr>) c st of (c', st') \<Rightarrow> (c', st'\<lparr>Shutdown := True\<rparr>))"
  by (simp add: Tick_unfold)

theorem Tick_Start_completes_tick_witness:
  "\<not> Shutdown State_zero \<and> Start (SA_idle\<lparr>Start := True, Right := 255\<rparr>) \<and>
   Shutdown (snd (Tick (SA_idle\<lparr>Start := True, Right := 255\<rparr>) New State_zero)) \<and>
   State.Pose (snd (Tick (SA_idle\<lparr>Start := True, Right := 255\<rparr>) New State_zero)) =
     State.Pose State_zero"
proof -
  have a: "\<not> Shutdown State_zero"
    by (simp add: State_zero_def)
  have b: "Start (SA_idle\<lparr>Start := True, Right := 255\<rparr>)"
    by simp
  from Tick_Start_completes_tick [OF a b, of New] a b show ?thesis
    by blast
qed

text \<open>
  C2 as stated fails: on the zero state, a tick of a new controller with only Start
  pressed sets \<open>Shutdown\<close> and also writes \<open>Target\<close> (height 0 before, 40 after)
  and \<open>LookAt\<close> (nil before).
\<close>

theorem Tick_Start_counterexample:
  "\<not> Shutdown State_zero \<and> Start (SA_idle\<lparr>Start := True\<rparr>) \<and>
   Shutdown (snd (Tick (SA_idle\<lparr>Start := True\<rparr>) New State_zero)) \<and>
   Y (Position (Target State_zero)) = 0 \<and>
   Y (Position (Target (snd (Tick (SA_idle\<lparr>Start := True\<rparr>) New State_zero)))) = 40 \<and>
   LookAt State_zero = None \<and>
   LookAt (snd (Tick (SA_idle\<lparr>Start := True\<rparr>) New State_zero)) \<noteq> None \<and>
   Target (snd (Tick (SA_idle\<lparr>Start := True\<rparr>) New State_zero)) \<noteq> Target State_zero"
  by (simp add: Tick_unfold concrete_defs Let_def Pose_Add_def)

text \<open>
  C3. If \<open>Shutdown\<close> is set at entry, a tick returns the controller and the state as
  they were, for every frame; \<open>Shutdown\<close> is still set afterwards, and so is it after any
  number of further ticks, each of which changes nothing. Hence after a tick on which
  Start has triggered the shutdown, every later tick is a no-op.
\<close>

theorem Tick_shutdown_no_op:
  "(Shutdown st \<longrightarrow>
      Tick sa c st = (c, st) \<and> Shutdown (snd (Tick sa c st)) \<and> Ticks sas c st = (c, st)) \<and>
   (\<not> Shutdown st \<and> Start sa \<longrightarrow>
      Shutdown (snd (Tick sa c st)) \<and>
      Ticks sas (fst (Tick sa c st)) (snd (Tick sa c st)) = Tick sa c st)"
proof (intro conjI impI)
  assume "Shutdown st"
  then show "Tick sa c st = (c, st)" "Shutdown (snd (Tick sa c st))" "Ticks sas c st = (c, st)"
    by (simp_all add: Tick_no_op Ticks_no_op)
next
  assume a: "\<not> Shutdown st \<and> Start sa"
  then show s: "Shutdown (snd (Tick sa c st))"
    by (simp add: Tick_unfold)
  show "Ticks sas (fst (Tick sa c st)) (snd (Tick sa c st)) = Tick sa c st"
    using Ticks_no_op [OF s] by simp
qed

theorem Tick_shutdown_no_op_witness:
  "Shutdown (State_zero\<lparr>Shutdown := True\<rparr>) \<and>
   Tick (SA_idle\<lparr>Up := 255, R1 := 255\<rparr>) New (State_zero\<lparr>Shutdown := True\<rparr>)
     = (New, State_zero\<lparr>Shutdown := True\<rparr>) \<and>
   \<not> Shutdown State_zero \<and> Start (SA_idle\<lparr>Start := True\<rparr>) \<and>
   Ticks [SA_idle\<lparr>Up := 255\<rparr>, SA_idle]
     (fst (Tick (SA_idle\<lparr>Start := True\<rparr>) New State_zero))
     (snd (Tick (SA_idle\<lparr>Start := True\<rparr>) New State_zero))
     = Tick (SA_idle\<lparr>Start := True\<rparr>) New State_zero"
  using Tick_shutdown_no_op [of "State_zero\<lparr>Shutdown := True\<rparr>" "SA_idle\<lparr>Up := 255, R1 := 255\<rparr>" New "[]"]
    Tick_shutdown_no_op [of State_zero "SA_idle\<lparr>Start := True\<rparr>" New "[SA_idle\<lparr>Up := 255\<rparr>, SA_idle]"]
  by (simp add: State_zero_def SA_idle_def)

text \<open>
  C4. On a tick that is not a no-op: with R1 pressure strictly above the threshold 10,
  \<open>Offset\<close> is written from the right stick and \<open>LookAt\<close> keeps its value; with R1
  pressure at or below the threshold, \<open>LookAt\<close> is written and \<open>Offset\<close> keeps its
  value.
\<close>

theorem Tick_Offset_or_LookAt:
  "\<not> Shutdown st \<Longrightarrow>
   (10 < sint (R1 sa) \<longrightarrow>
      Offset (snd (Tick sa c st)) =
        \<lparr>X = float64_of (StickX (RightStick sa)) / 127 * xOffsetScale,
         Y = 0,
         Z = float64_of (StickY (RightStick sa) * (- 1)) / 127 * zOffsetScale\<rparr> \<and>
      LookAt (snd (Tick sa c st)) = LookAt st) \<and>
   (sint (R1 sa) \<le> 10 \<longrightarrow>
      LookAt (snd (Tick sa c st)) =
        Some (Position
          (Pose_Add
            (Pose_Add (State.Pose st)
               \<lparr>Position = \<lparr>X = 0, Y = 0, Z = 0\<rparr>, Heading = 0,
                Pitch = - Pitch (State.Pose st), Bank = - Bank (State.Pose st)\<rparr>)
            \<lparr>Position =
               \<lparr>X = (float64_of (StickX (RightStick sa)) / 127 * horizontalLookScale)
                      + focalHorizontalOffset,
                Y = (float64_of (StickY (RightStick sa) * (- 1)) / 127 * verticalLookScale)
                      + focalVerticalOffset,
                Z = focalDistance\<rparr>,
             Heading = 0, Pitch = 0, Bank = 0\<rparr>)) \<and>
      Offset (snd (Tick sa c st)) = Offset st)"
  by (simp add: Tick_unfold pressed_iff)

theorem Tick_Offset_or_LookAt_witness:
  "\<not> Shutdown State_zero \<and>
   10 < sint (R1 (SA_idle\<lparr>R1 := 11, RightStick := \<lparr>StickX = 127, StickY = 127\<rparr>\<rparr>)) \<and>
   Offset (snd (Tick (SA_idle\<lparr>R1 := 11, RightStick := \<lparr>StickX = 127, StickY = 127\<rparr>\<rparr>) New State_zero))
     = \<lparr>X = 40, Y = 0, Z = - 40\<rparr> \<and>
   LookAt (snd (Tick (SA_idle\<lparr>R1 := 11, RightStick := \<lparr>StickX = 127, StickY = 127\<rparr>\<rparr>) New State_zero))
     = None \<and>
   sint (R1 (SA_idle\<lparr>R1 := 10\<rparr>)) \<le> 10 \<and>
   LookAt (snd (Tick (SA_idle\<lparr>R1 := 10\<rparr>) New State_zero)) = Some \<lparr>X = 0, Y = 77.5, Z = 500\<rparr> \<and>
   Offset (snd (Tick (SA_idle\<lparr>R1 := 10\<rparr>) New State_zero)) = \<lparr>X = 0, Y = 0, Z = 0\<rparr>"
  using Tick_Offset_or_LookAt [of State_zero "SA_idle\<lparr>R1 := 11, RightStick := \<lparr>StickX = 127, StickY = 127\<rparr>\<rparr>" New]
    Tick_Offset_or_LookAt [of State_zero "SA_idle\<lparr>R1 := 10\<rparr>" New]
  by (simp add: State_zero_def SA_idle_def float64_of_def xOffsetScale_def zOffsetScale_def
      Pose_Add_defs horizontalLookScale_def verticalLookScale_def focalHorizontalOffset_def
      focalVerticalOffset_def focalDistance_def)

text \<open>
  C6. On a tick that is not a no-op, the heading of the target is the heading of the sum
  of the current pose and a delta whose heading is \<open>float64(R2 - L2) / 127 * rotSpeed\<close>
  (with the spec's reading of the sum it exceeds the heading of the current pose by
  that amount). This delta is the signed 32-bit difference of the pressures, divided by
  127 and scaled by 15. For pressures in \<open>[0, 255]\<close> the difference does not wrap, so
  the delta is \<open>(R2 - L2) / 127 * 15\<close> on the integers, and it is negative when L2 is
  greater than R2.
\<close>

theorem Tick_heading_delta:
  "\<not> Shutdown st \<Longrightarrow>
   Heading (Target (snd (Tick sa c st))) =
     Heading (Pose_Add (State.Pose st)
        \<lparr>Position =
           \<lparr>X = (float64_of (StickX (LeftStick sa)) / 127) * moveSpeed,
            Y = 0,
            Z = (float64_of (- StickY (LeftStick sa)) / 127) * moveSpeed\<rparr>,
         Heading = (float64_of (R2 sa - L2 sa) / 127) * rotSpeed,
         Pitch = 0, Bank = 0\<rparr>) \<and>
   Heading (Target (snd (Tick sa c st))) - Heading (State.Pose st) =
     (float64_of (R2 sa - L2 sa) / 127) * rotSpeed \<and>
   (float64_of (R2 sa - L2 sa) / 127) * rotSpeed =
     (real_of_int (sint (R2 sa - L2 sa)) / 127) * 15 \<and>
   (0 \<le> sint (L2 sa) \<and> sint (L2 sa) \<le> 255 \<and> 0 \<le> sint (R2 sa) \<and> sint (R2 sa) \<le> 255 \<longrightarrow>
      (float64_of (R2 sa - L2 sa) / 127) * rotSpeed =
        (real_of_int (sint (R2 sa) - sint (L2 sa)) / 127) * 15 \<and>
      (sint (R2 sa) < sint (L2 sa) \<longrightarrow> (float64_of (R2 sa - L2 sa) / 127) * rotSpeed < 0))"
proof -
  assume ns: "\<not> Shutdown st"
  have v: "(float64_of (R2 sa - L2 sa) / 127) * rotSpeed =
     (real_of_int (sint (R2 sa - L2 sa)) / 127) * 15"
    by (simp only: float64_of_def rotSpeed_def)
  have "Heading (Target (snd (Tick sa c st))) =
     Heading (Pose_Add (State.Pose st)
        \<lparr>Position =
           \<lparr>X = (float64_of (StickX (LeftStick sa)) / 127) * moveSpeed,
            Y = 0,
            Z = (float64_of (- StickY (LeftStick sa)) / 127) * moveSpeed\<rparr>,
         Heading = (float64_of (R2 sa - L2 sa) / 127) * rotSpeed,
         Pitch = 0, Bank = 0\<rparr>)"
    using ns by (simp add: Tick_unfold Let_def)
  moreover have "Heading (Target (snd (Tick sa c st))) - Heading (State.Pose st) =
     (float64_of (R2 sa - L2 sa) / 127) * rotSpeed"
    using ns by (simp add: Tick_unfold Let_def Pose_Add_def)
  moreover note v
  moreover have "(float64_of (R2 sa - L2 sa) / 127) * rotSpeed =
        (real_of_int (sint (R2 sa) - sint (L2 sa)) / 127) * 15 \<and>
      (sint (R2 sa) < sint (L2 sa) \<longrightarrow> (float64_of (R2 sa - L2 sa) / 127) * rotSpeed < 0)"
    if "0 \<le> sint (L2 sa) \<and> sint (L2 sa) \<le> 255 \<and> 0 \<le> sint (R2 sa) \<and> sint (R2 sa) \<le> 255"
  proof -
    have d: "sint (R2 sa - L2 sa) = sint (R2 sa) - sint (L2 sa)"
      using that by (intro sint_sub_pressures) simp_all
    have "(real_of_int (sint (R2 sa) - sint (L2 sa)) / 127) * 15 < 0"
      if "sint (R2 sa) < sint (L2 sa)"
      using that by (intro scaled_negative) simp
    then show ?thesis
      unfolding v d by blast
  qed
  ultimately show ?thesis by blast
qed

theorem Tick_heading_delta_witness:
  "\<not> Shutdown State_zero \<and>
   (0 \<le> sint (L2 (SA_idle\<lparr>L2 := 255, R2 := 1\<rparr>)) \<and> sint (L2 (SA_idle\<lparr>L2 := 255, R2 := 1\<rparr>)) \<le> 255 \<and>
    0 \<le> sint (R2 (SA_idle\<lparr>L2 := 255, R2 := 1\<rparr>)) \<and> sint (R2 (SA_idle\<lparr>L2 := 255, R2 := 1\<rparr>)) \<le> 255) \<and>
   sint (R2 (SA_idle\<lparr>L2 := 255, R2 := 1\<rparr>)) < sint (L2 (SA_idle\<lparr>L2 := 255, R2 := 1\<rparr>)) \<and>
   Heading (Target (snd (Tick (SA_idle\<lparr>L2 := 255, R2 := 1\<rparr>) New State_zero)))
     - Heading (State.Pose State_zero) < 0"
proof -
  let ?sa = "SA_idle\<lparr>L2 := 255, R2 := 1\<rparr>"
  let ?v = "(float64_of (R2 ?sa - L2 ?sa) / 127) * rotSpeed"
  let ?d = "Heading (Target (snd (Tick ?sa New State_zero))) - Heading (State.Pose State_zero)"
  have a: "\<not> Shutdown State_zero"
    by (simp add: State_zero_def)
  have b: "0 \<le> sint (L2 ?sa) \<and> sint (L2 ?sa) \<le> 255 \<and> 0 \<le> sint (R2 ?sa) \<and> sint (R2 ?sa) \<le> 255"
    by simp
  have c: "sint (R2 ?sa) < sint (L2 ?sa)"
    by simp
  note t = Tick_heading_delta [OF a, of ?sa New]
  from t b c have "?v < 0" by blast
  moreover from t have "?d = ?v" by blast
  ultimately have "?d < 0" by (simp only:)
  with a b c show ?thesis by blast
qed




text \<open>
  C8. On a tick that is not a no-op: if orientation-follow mode is on at entry, the
  target's pitch is the sensor's Y tilt negated and scaled by \<open>pitchScale\<close>, its bank
  the X tilt negated and scaled by \<open>bankScale\<close> (both 15); if the mode is off, pitch
  and bank are 0, whatever the sensor reads.
\<close>

theorem Tick_orientation_follow:
  "\<not> Shutdown st \<Longrightarrow>
   pitchScale = 15 \<and> bankScale = 15 \<and>
   (setTargetOrientation c \<longrightarrow>
      Pitch (Target (snd (Tick sa c st))) = - OrientationY sa * pitchScale \<and>
      Bank (Target (snd (Tick sa c st))) = - OrientationX sa * bankScale) \<and>
   (\<not> setTargetOrientation c \<longrightarrow>
      Pitch (Target (snd (Tick sa c st))) = 0 \<and> Bank (Target (snd (Tick sa c st))) = 0)"
  by (simp add: Tick_unfold Let_def pitchScale_def bankScale_def)

theorem Tick_orientation_follow_witness:
  "\<not> Shutdown State_zero \<and> setTargetOrientation (New\<lparr>setTargetOrientation := True\<rparr>) \<and>
   Pitch (Target (snd (Tick (SA_idle\<lparr>OrientationX := 1 / 2, OrientationY := - 1\<rparr>)
      (New\<lparr>setTargetOrientation := True\<rparr>) State_zero))) = 15 \<and>
   Bank (Target (snd (Tick (SA_idle\<lparr>OrientationX := 1 / 2, OrientationY := - 1\<rparr>)
      (New\<lparr>setTargetOrientation := True\<rparr>) State_zero))) = - 7.5 \<and>
   \<not> setTargetOrientation New \<and>
   Pitch (Target (snd (Tick (SA_idle\<lparr>OrientationX := 1 / 2, OrientationY := - 1\<rparr>) New State_zero))) = 0 \<and>
   Bank (Target (snd (Tick (SA_idle\<lparr>OrientationX := 1 / 2, OrientationY := - 1\<rparr>) New State_zero))) = 0"
  using Tick_orientation_follow [of State_zero "New\<lparr>setTargetOrientation := True\<rparr>"
      "SA_idle\<lparr>OrientationX := 1 / 2, OrientationY := - 1\<rparr>"]
    Tick_orientation_follow [of State_zero New "SA_idle\<lparr>OrientationX := 1 / 2, OrientationY := - 1\<rparr>"]
  by (simp add: State_zero_def SA_idle_def New_def)



text \<open>
  C10 (as amended). After a tick that is not a no-op and has R1 above the threshold,
  \<open>Offset.Y\<close> is 0; and after any tick, \<open>Offset\<close> is either what it was or has
  \<open>Y = 0\<close>: the controller never writes another Y.
\<close>

theorem Tick_Offset_Y_zero:
  "(\<not> Shutdown st \<and> 10 < sint (R1 sa) \<longrightarrow> Y (Offset (snd (Tick sa c st))) = 0) \<and>
   (Offset (snd (Tick sa c st)) = Offset st \<or> Y (Offset (snd (Tick sa c st))) = 0)"
  by (cases "Shutdown st") (simp_all add: Tick_no_op Tick_unfold pressed_iff)

theorem Tick_Offset_Y_zero_witness:
  "\<not> Shutdown (State_zero\<lparr>Offset := \<lparr>X = 1, Y = 5, Z = 2\<rparr>\<rparr>) \<and>
   10 < sint (R1 (SA_idle\<lparr>R1 := 255\<rparr>)) \<and>
   Y (Offset (snd (Tick (SA_idle\<lparr>R1 := 255\<rparr>) New (State_zero\<lparr>Offset := \<lparr>X = 1, Y = 5, Z = 2\<rparr>\<rparr>)))) = 0"
  using Tick_Offset_Y_zero [of "State_zero\<lparr>Offset := \<lparr>X = 1, Y = 5, Z = 2\<rparr>\<rparr>" "SA_idle\<lparr>R1 := 255\<rparr>" New]
  by (simp add: State_zero_def SA_idle_def)

text \<open>
  C10 as stated fails on a no-op tick: with \<open>Shutdown\<close> set and \<open>Offset.Y = 5\<close> at
  entry, a tick with R1 at 255 leaves \<open>Offset.Y = 5\<close>.
\<close>

theorem Tick_Offset_Y_counterexample:
  "Shutdown (State_zero\<lparr>Shutdown := True, Offset := \<lparr>X = 0, Y = 5, Z = 0\<rparr>\<rparr>) \<and>
   10 < sint (R1 (SA_idle\<lparr>R1 := 255\<rparr>)) \<and>
   Y (Offset (snd (Tick (SA_idle\<lparr>R1 := 255\<rparr>) New
        (State_zero\<lparr>Shutdown := True, Offset := \<lparr>X = 0, Y = 5, Z = 0\<rparr>\<rparr>)))) = 5 \<and>
   Y (Offset (snd (Tick (SA_idle\<lparr>R1 := 255\<rparr>) New
        (State_zero\<lparr>Shutdown := True, Offset := \<lparr>X = 0, Y = 5, Z = 0\<rparr>\<rparr>)))) \<noteq> 0"
  by (simp add: Tick_no_op State_zero_def SA_idle_def)

end
